theory Spec2Isabelle
  imports Main
begin

section \<open>The run-time values of requestStatus.ts\<close>

text \<open>
  The module is TypeScript; its types are erased before it runs, so the two functions
  see plain JavaScript values. The fragment of those values that matters here: the
  primitives \<open>undefined\<close>, \<open>null\<close>, booleans and strings, plain objects, and callable
  objects (functions). An object, callable or not, is the list of the properties visible
  on it, looked up with \<open>map_of\<close> (the first entry of a name is the property). A
  function can carry properties like any object; it differs in what \<open>typeof\<close> says.
\<close>

datatype js_value =
    JUndefined
  | JNull
  | JBoolean bool
  | JString string
  | JObject "(string \<times> js_value) list"
  | JFunction "(string \<times> js_value) list"

text \<open>The only exception the module's code can raise.\<close>

datatype error = TypeError

text \<open>
  \<open>enum RequestStatusEnum { IDLE = 'idle', PENDING = 'pending', SUCCESS = 'success',
  ERROR = 'error' }\<close>: four members, each a string at run time.
\<close>

datatype RequestStatusEnum = IDLE | PENDING | SUCCESS | ERROR

fun enum_string :: "RequestStatusEnum \<Rightarrow> string" where
  "enum_string IDLE = ''idle''"
| "enum_string PENDING = ''pending''"
| "enum_string SUCCESS = ''success''"
| "enum_string ERROR = ''error''"

definition enum_value :: "RequestStatusEnum \<Rightarrow> js_value" where
  "enum_value t = JString (enum_string t)"

subsection \<open>The operators the code uses\<close>

text \<open>\<open>typeof v\<close>; \<open>typeof null\<close> is \<open>'object'\<close>, and a callable object is \<open>'function'\<close>.\<close>

fun typeof :: "js_value \<Rightarrow> string" where
  "typeof JUndefined = ''undefined''"
| "typeof JNull = ''object''"
| "typeof (JBoolean b) = ''boolean''"
| "typeof (JString s) = ''string''"
| "typeof (JObject fs) = ''object''"
| "typeof (JFunction fs) = ''function''"

text \<open>
  \<open>k in v\<close>: whether the object has the property, whatever its value; a right operand
  that is not an object raises a TypeError.
\<close>

fun in_operator :: "string \<Rightarrow> js_value \<Rightarrow> error + bool" where
  "in_operator k (JObject fs) = Inr (map_of fs k \<noteq> None)"
| "in_operator k (JFunction fs) = Inr (map_of fs k \<noteq> None)"
| "in_operator k v = Inl TypeError"

text \<open>
  The read \<open>requestStatus.error\<close> that callers perform on a narrowed value: the
  property's value when the value is an object that has it.
\<close>

fun error_field :: "js_value \<Rightarrow> js_value option" where
  "error_field (JObject fs) = map_of fs ''error''"
| "error_field (JFunction fs) = map_of fs ''error''"
| "error_field v = None"

subsection \<open>The types, as sets of run-time values\<close>

text \<open>
  The object type \<open>{ error: string }\<close>: an object whose \<open>error\<close> property is a string.
  The type is structural, so a function that carries such a property belongs to it too.
\<close>

definition error_object :: "js_value \<Rightarrow> bool" where
  "error_object v = (case error_field v of Some (JString m) \<Rightarrow> True | _ \<Rightarrow> False)"

text \<open>
  \<open>type RequestStatus = RequestStatusEnum.IDLE | RequestStatusEnum.PENDING |
  RequestStatusEnum.SUCCESS | { error: string }\<close>. The bare \<open>ERROR\<close> member is not in it.
\<close>

definition RequestStatus :: "js_value \<Rightarrow> bool" where
  "RequestStatus v =
     (v = enum_value IDLE \<or> v = enum_value PENDING \<or> v = enum_value SUCCESS \<or> error_object v)"

text \<open>
  \<open>type ExtractRequestStatus<T> = T extends RequestStatusEnum.ERROR ?
  Extract<RequestStatus, { error: string }> : T\<close>: for \<open>ERROR\<close> the members of
  \<open>RequestStatus\<close> that are \<open>{ error: string }\<close>, for another member that member itself.
\<close>

definition ExtractRequestStatus :: "RequestStatusEnum \<Rightarrow> js_value \<Rightarrow> bool" where
  "ExtractRequestStatus t v =
     (if t = ERROR then RequestStatus v \<and> error_object v else v = enum_value t)"

section \<open>The two functions\<close>

text \<open>
  \<open>if (typeof status === 'object' && 'error' in status) return RequestStatusEnum.ERROR;
  return status;\<close>
  The \<open>&&\<close> evaluates \<open>in\<close> only when the \<open>typeof\<close> test holds, so \<open>in\<close> can raise on
  \<open>null\<close> alone; a callable object fails the \<open>typeof\<close> test and is returned as it is.
\<close>

definition getRequestStatus :: "js_value \<Rightarrow> error + js_value" where
  "getRequestStatus status =
     (if typeof status = ''object'' then
        (case in_operator ''error'' status of
           Inl e \<Rightarrow> Inl e
         | Inr b \<Rightarrow> if b then Inr (enum_value ERROR) else Inr status)
      else Inr status)"

text \<open>
  \<open>return getRequestStatus(requestStatus) === status;\<close>
  The right operand has type \<open>S extends RequestStatusEnum\<close>, a string; \<open>===\<close> against a
  string holds exactly when the left operand is the same string, so equality of values
  is what \<open>===\<close> computes here (an object is never \<open>===\<close> to a string).
\<close>

definition isRequestStatus :: "js_value \<Rightarrow> RequestStatusEnum \<Rightarrow> error + bool" where
  "isRequestStatus requestStatus status =
     (case getRequestStatus requestStatus of
        Inl e \<Rightarrow> Inl e
      | Inr v \<Rightarrow> Inr (v = enum_value status))"

section \<open>Basic facts\<close>

lemma enum_value_inject: "enum_value a = enum_value b \<longleftrightarrow> a = b"
  by (cases a; cases b) (simp_all add: enum_value_def)

lemma typeof_enum_value: "typeof (enum_value t) = ''string''"
  by (simp add: enum_value_def)

lemma error_object_cases:
  "error_object v \<longleftrightarrow>
     (\<exists>fs m. (v = JObject fs \<or> v = JFunction fs) \<and> map_of fs ''error'' = Some (JString m))"
proof (cases v)
  case (JObject fs)
  then show ?thesis
    by (auto simp: error_object_def split: option.splits js_value.splits)
next
  case (JFunction fs)
  then show ?thesis
    by (auto simp: error_object_def split: option.splits js_value.splits)
qed (simp_all add: error_object_def)

lemma error_object_field: "error_object v \<Longrightarrow> \<exists>m. error_field v = Some (JString m)"
  by (auto simp: error_object_cases)

lemma getRequestStatus_error_object:
  "error_object v \<Longrightarrow> typeof v \<noteq> ''function'' \<Longrightarrow> getRequestStatus v = Inr (enum_value ERROR)"
  by (auto simp: error_object_cases getRequestStatus_def)

lemma getRequestStatus_callable: "typeof v = ''function'' \<Longrightarrow> getRequestStatus v = Inr v"
  by (simp add: getRequestStatus_def)

lemma getRequestStatus_string: "getRequestStatus (JString s) = Inr (JString s)"
  by (simp add: getRequestStatus_def)

lemma getRequestStatus_tag: "getRequestStatus (enum_value t) = Inr (enum_value t)"
  by (simp add: enum_value_def getRequestStatus_string)

lemma RequestStatus_cases:
  "RequestStatus v \<longleftrightarrow> (\<exists>t. t \<noteq> ERROR \<and> v = enum_value t) \<or> error_object v"
proof
  assume "RequestStatus v"
  then show "(\<exists>t. t \<noteq> ERROR \<and> v = enum_value t) \<or> error_object v"
    unfolding RequestStatus_def by blast
next
  assume r: "(\<exists>t. t \<noteq> ERROR \<and> v = enum_value t) \<or> error_object v"
  show "RequestStatus v"
  proof (cases "error_object v")
    case True
    then show ?thesis by (simp add: RequestStatus_def)
  next
    case False
    with r obtain t where "t \<noteq> ERROR" and "v = enum_value t" by blast
    then show ?thesis by (cases t) (simp_all add: RequestStatus_def)
  qed
qed

text \<open>
  What the projection returns on a value of type \<open>RequestStatus\<close>: the \<open>ERROR\<close> tag on an
  error object that is not callable, and the value itself otherwise.
\<close>

lemma getRequestStatus_valid:
  assumes "RequestStatus v"
  shows "getRequestStatus v =
           Inr (if error_object v \<and> typeof v \<noteq> ''function'' then enum_value ERROR else v)"
proof (cases "error_object v")
  case True
  show ?thesis
  proof (cases "typeof v = ''function''")
    case True
    then show ?thesis by (simp add: getRequestStatus_callable)
  next
    case False
    with \<open>error_object v\<close> show ?thesis by (simp add: getRequestStatus_error_object)
  qed
next
  case False
  with assms obtain t where "v = enum_value t" by (auto simp: RequestStatus_cases)
  with False show ?thesis by (simp add: getRequestStatus_tag)
qed


section \<open>The claims\<close>

text \<open>
  C1. For every valid request state \<open>s\<close> and every tag \<open>t\<close>, \<open>isRequestStatus s t\<close> returns,
  and what it returns is true exactly when \<open>getRequestStatus s\<close> is the tag \<open>t\<close>.
\<close>

theorem isRequestStatus_agrees_with_projection:
  "RequestStatus s \<Longrightarrow>
     isRequestStatus s t = Inr (getRequestStatus s = Inr (enum_value t))"
  by (simp add: isRequestStatus_def getRequestStatus_valid)

theorem isRequestStatus_agrees_with_projection_witness:
  "RequestStatus (JObject [(''error'', JString ''timeout'')]) \<and>
   isRequestStatus (JObject [(''error'', JString ''timeout'')]) ERROR =
     Inr (getRequestStatus (JObject [(''error'', JString ''timeout'')]) = Inr (enum_value ERROR)) \<and>
   isRequestStatus (JObject [(''error'', JString ''timeout'')]) ERROR = Inr True"
proof -
  have v: "RequestStatus (JObject [(''error'', JString ''timeout'')])"
    by (simp add: RequestStatus_def error_object_def)
  have "getRequestStatus (JObject [(''error'', JString ''timeout'')]) = Inr (enum_value ERROR)"
    by (simp add: getRequestStatus_def)
  with v isRequestStatus_agrees_with_projection [OF v, of ERROR] show ?thesis
    by simp
qed

text \<open>
  C2. Narrowing soundness for the \<open>ERROR\<close> tag: when \<open>isRequestStatus s ERROR\<close> returns true on
  a valid request state \<open>s\<close>, then \<open>s\<close> is in \<open>ExtractRequestStatus<ERROR>\<close>, the composite error
  variant, and reading its \<open>error\<close> property gives a string. In particular the predicate
  returns true on \<open>{error: "timeout"}\<close> with \<open>ERROR\<close>, and the property read gives
  \<open>"timeout"\<close>.
\<close>

theorem isRequestStatus_ERROR_narrows:
  "(RequestStatus s \<longrightarrow> isRequestStatus s ERROR = Inr True \<longrightarrow>
      ExtractRequestStatus ERROR s \<and> (\<exists>m. error_field s = Some (JString m))) \<and>
   isRequestStatus (JObject [(''error'', JString ''timeout'')]) ERROR = Inr True \<and>
   error_field (JObject [(''error'', JString ''timeout'')]) = Some (JString ''timeout'')"
proof (intro conjI impI)
  assume v: "RequestStatus s" and r: "isRequestStatus s ERROR = Inr True"
  have e: "error_object s"
  proof (rule ccontr)
    assume n: "\<not> error_object s"
    with v obtain t where "t \<noteq> ERROR" and "s = enum_value t"
      by (auto simp: RequestStatus_cases)
    with r show False
      by (simp add: isRequestStatus_def getRequestStatus_tag enum_value_inject)
  qed
  with v show "ExtractRequestStatus ERROR s"
    by (simp add: ExtractRequestStatus_def)
  from e show "\<exists>m. error_field s = Some (JString m)"
    by (rule error_object_field)
next
  show "isRequestStatus (JObject [(''error'', JString ''timeout'')]) ERROR = Inr True"
    by (simp add: isRequestStatus_def getRequestStatus_def)
next
  show "error_field (JObject [(''error'', JString ''timeout'')]) = Some (JString ''timeout'')"
    by simp
qed

theorem isRequestStatus_ERROR_narrows_witness:
  "RequestStatus (JObject [(''error'', JString ''refused''), (''code'', JString ''E42'')]) \<and>
   isRequestStatus (JObject [(''error'', JString ''refused''), (''code'', JString ''E42'')]) ERROR
     = Inr True \<and>
   ExtractRequestStatus ERROR
     (JObject [(''error'', JString ''refused''), (''code'', JString ''E42'')]) \<and>
   error_field (JObject [(''error'', JString ''refused''), (''code'', JString ''E42'')])
     = Some (JString ''refused'')"
proof -
  let ?s = "JObject [(''error'', JString ''refused''), (''code'', JString ''E42'')]"
  have v: "RequestStatus ?s"
    by (simp add: RequestStatus_def error_object_def)
  have r: "isRequestStatus ?s ERROR = Inr True"
    by (simp add: isRequestStatus_def getRequestStatus_def)
  from isRequestStatus_ERROR_narrows [of ?s] v r
  have "ExtractRequestStatus ERROR ?s" by blast
  moreover have "error_field ?s = Some (JString ''refused'')" by simp
  ultimately show ?thesis using v r by blast
qed

text \<open>
  C3. For every message \<open>m\<close>, \<open>getRequestStatus {error: m}\<close> is the \<open>ERROR\<close> tag. The decision is
  structural: an object that has an \<open>error\<close> property, whatever its other properties and
  whatever the property holds, is mapped to \<open>ERROR\<close>; and a value without that property is
  never turned into \<open>ERROR\<close> for not being one of the three unit variants: every such value
  other than \<open>null\<close> is returned as it is.
\<close>

theorem getRequestStatus_error_structural:
  "getRequestStatus (JObject [(''error'', JString m)]) = Inr (enum_value ERROR) \<and>
   (map_of fs ''error'' \<noteq> None \<longrightarrow> getRequestStatus (JObject fs) = Inr (enum_value ERROR)) \<and>
   (error_field w = None \<longrightarrow> w \<noteq> JNull \<longrightarrow> getRequestStatus w = Inr w)"
proof (intro conjI impI)
  show "getRequestStatus (JObject [(''error'', JString m)]) = Inr (enum_value ERROR)"
    by (simp add: getRequestStatus_def)
next
  assume "map_of fs ''error'' \<noteq> None"
  then show "getRequestStatus (JObject fs) = Inr (enum_value ERROR)"
    by (simp add: getRequestStatus_def)
next
  assume "error_field w = None" and "w \<noteq> JNull"
  then show "getRequestStatus w = Inr w"
    by (cases w) (simp_all add: getRequestStatus_def)
qed

theorem getRequestStatus_error_structural_witness:
  "getRequestStatus (JObject [(''error'', JString ''timeout'')]) = Inr (enum_value ERROR) \<and>
   map_of [(''retries'', JString ''3''), (''error'', JUndefined)] ''error'' \<noteq> None \<and>
   getRequestStatus (JObject [(''retries'', JString ''3''), (''error'', JUndefined)])
     = Inr (enum_value ERROR) \<and>
   error_field (JString ''cancelled'') = None \<and> JString ''cancelled'' \<noteq> JNull \<and>
   getRequestStatus (JString ''cancelled'') = Inr (JString ''cancelled'') \<and>
   JString ''cancelled'' \<noteq> enum_value ERROR"
proof -
  have a: "map_of [(''retries'', JString ''3''), (''error'', JUndefined)] ''error'' \<noteq> None"
    by simp
  have b: "error_field (JString ''cancelled'') = None" "JString ''cancelled'' \<noteq> JNull"
    by simp_all
  have c: "JString ''cancelled'' \<noteq> enum_value ERROR"
    by (simp add: enum_value_def)
  from getRequestStatus_error_structural
         [of "''timeout''" "[(''retries'', JString ''3''), (''error'', JUndefined)]"
             "JString ''cancelled''"] a b c
  show ?thesis by blast
qed

text \<open>
  C4. On each of the three unit variants \<open>IDLE\<close>, \<open>PENDING\<close> and \<open>SUCCESS\<close>,
  \<open>getRequestStatus\<close> returns its argument.
\<close>

theorem getRequestStatus_unit_identity:
  "t \<in> {IDLE, PENDING, SUCCESS} \<Longrightarrow> getRequestStatus (enum_value t) = Inr (enum_value t)"
  by (auto simp: enum_value_def getRequestStatus_def)

theorem getRequestStatus_unit_identity_witness:
  "PENDING \<in> {IDLE, PENDING, SUCCESS} \<and>
   getRequestStatus (JString ''pending'') = Inr (JString ''pending'')"
proof -
  have h: "PENDING \<in> {IDLE, PENDING, SUCCESS}" by simp
  from getRequestStatus_unit_identity [OF h] h show ?thesis
    by (simp add: enum_value_def)
qed




text \<open>
  C6. Narrowing soundness for the unit tags: when \<open>isRequestStatus s t\<close> returns true on a
  valid request state \<open>s\<close> and \<open>t\<close> is \<open>IDLE\<close>, \<open>PENDING\<close> or \<open>SUCCESS\<close>, then \<open>s\<close> is that
  unit variant itself, which is what \<open>ExtractRequestStatus<t>\<close> holds.
\<close>

theorem isRequestStatus_unit_narrows:
  assumes "RequestStatus s" and "t \<in> {IDLE, PENDING, SUCCESS}"
    and "isRequestStatus s t = Inr True"
  shows "s = enum_value t \<and> ExtractRequestStatus t s"
proof -
  from assms(2) have ne: "t \<noteq> ERROR" by auto
  from assms(1,3)
  have "(if error_object s \<and> typeof s \<noteq> ''function'' then enum_value ERROR else s)
          = enum_value t"
    by (simp add: isRequestStatus_def getRequestStatus_valid)
  with ne have "s = enum_value t"
    by (simp add: enum_value_inject split: if_splits)
  with ne show ?thesis by (simp add: ExtractRequestStatus_def)
qed

theorem isRequestStatus_unit_narrows_witness:
  "RequestStatus (JString ''idle'') \<and> IDLE \<in> {IDLE, PENDING, SUCCESS} \<and>
   isRequestStatus (JString ''idle'') IDLE = Inr True \<and>
   JString ''idle'' = enum_value IDLE \<and> ExtractRequestStatus IDLE (JString ''idle'')"
proof -
  have v: "RequestStatus (JString ''idle'')"
    by (simp add: RequestStatus_def enum_value_def)
  have m: "IDLE \<in> {IDLE, PENDING, SUCCESS}" by simp
  have r: "isRequestStatus (JString ''idle'') IDLE = Inr True"
    by (simp add: isRequestStatus_def getRequestStatus_def enum_value_def)
  from isRequestStatus_unit_narrows [OF v m r] v m r show ?thesis by blast
qed




text \<open>
  C8. Comparing the state itself with a tag is not enough where the predicate succeeds: for
  every message \<open>m\<close> the composite state \<open>{error: m}\<close> differs from the bare \<open>ERROR\<close> tag, as
  from every other tag, so a direct comparison never matches, while
  \<open>isRequestStatus {error: m} ERROR\<close> returns true.
\<close>

theorem direct_comparison_misses_error_state:
  "JObject [(''error'', JString m)] \<noteq> enum_value ERROR \<and>
   (\<forall>t. JObject [(''error'', JString m)] \<noteq> enum_value t) \<and>
   isRequestStatus (JObject [(''error'', JString m)]) ERROR = Inr True"
  by (simp add: enum_value_def isRequestStatus_def getRequestStatus_def)




end
